theory Spec2Isabelle
  imports Complex_Main "HOL-Library.AList"
begin

section \<open>JavaScript strings as used by \<open>src/index.ts\<close>\<close>

text \<open>
  Strings are character lists. The four string methods the program calls are
  \<open>indexOf\<close>, \<open>lastIndexOf\<close>, \<open>substr\<close> and \<open>split\<close>. Indices are JavaScript numbers
  and may be negative (\<open>indexOf\<close> answers \<open>-1\<close> when the character is absent), so they
  are integers here.
\<close>

definition indexOf :: "string \<Rightarrow> char \<Rightarrow> int" where
  "indexOf s c =
     (if c \<in> set s then int (length (takeWhile (\<lambda>x. x \<noteq> c) s)) else - 1)"

definition lastIndexOf :: "string \<Rightarrow> char \<Rightarrow> int" where
  "lastIndexOf s c =
     (if c \<in> set s
      then int (length s) - 1 - int (length (takeWhile (\<lambda>x. x \<noteq> c) (rev s)))
      else - 1)"

text \<open>
  \<open>String.prototype.substr(start, length)\<close>: a negative start counts from the end, the
  start is clamped to the string, and a length that is negative or zero gives the empty
  string.
\<close>

definition substr :: "string \<Rightarrow> int \<Rightarrow> int \<Rightarrow> string" where
  "substr s start len =
     (let size = int (length s);
          intStart = (if start < 0 then max (size + start) 0 else min start size);
          intLength = min (max len 0) size;
          intEnd = min (intStart + intLength) size
      in take (nat (intEnd - intStart)) (drop (nat intStart) s))"

fun startsWith :: "string \<Rightarrow> string \<Rightarrow> bool" where
  "startsWith s [] = True"
| "startsWith [] (p # ps) = False"
| "startsWith (c # cs) (p # ps) = (c = p \<and> startsWith cs ps)"

text \<open>
  \<open>String.prototype.split(sep)\<close> for a string separator: the occurrences of \<open>sep\<close> are
  found left to right without overlap, and the pieces between them are returned; a
  string without the separator is returned whole, so the result of splitting on a
  non-empty separator is never the empty array. The empty separator splits into single
  characters. \<open>splitFrom sep acc s\<close> scans \<open>s\<close> with the piece read so far in \<open>acc\<close>.
\<close>

function splitFrom :: "string \<Rightarrow> string \<Rightarrow> string \<Rightarrow> string list" where
  "splitFrom sep acc [] = [acc]"
| "splitFrom sep acc (c # cs) =
     (if sep \<noteq> [] \<and> startsWith (c # cs) sep
      then acc # splitFrom sep [] (drop (length sep) (c # cs))
      else splitFrom sep (acc @ [c]) cs)"
  by pat_completeness auto
termination
  by (relation "measure (\<lambda>(sep, acc, s). length s)") auto

definition split :: "string \<Rightarrow> string \<Rightarrow> string list" where
  "split s sep = (if sep = [] then map (\<lambda>c. [c]) s else splitFrom sep [] s)"

section \<open>The data model\<close>

text \<open>
  \<open>Indicator.values\<close> is declared \<open>{ [key: number]: string }\<close> and created as \<open>[]\<close>. Its
  property keys are strings, as every JavaScript property key is: writing
  \<open>values[parseInt(year)]\<close> stores under the key \<open>String(parseInt(year))\<close>, and
  \<open>Object.keys(values)\<close> gives these strings back. The mapping is an association list
  in insertion order, written with \<^const>\<open>AList.update\<close> (a new key goes to the end, a
  known key keeps its place) and read with \<^const>\<open>map_of\<close>, so that a missing key reads
  as \<open>None\<close>, JavaScript's \<open>undefined\<close>.
\<close>

record Indicator =
  country :: string
  countryCode :: string
  name :: string
  code :: string
  "values" :: "(string \<times> string) list"

record Report =
  years :: "string list"
  indicators :: "Indicator list"

section \<open>JavaScript numbers\<close>

text \<open>
  A JavaScript number is an IEEE 754 double. The model keeps what the program's control
  flow can observe: the not-a-number value (every comparison with it is false), the two
  infinities, and the finite values, which are exact rationals here. Rounding to 53
  bits, overflow to an infinity and the sign of zero are outside the model.
\<close>

datatype jsnum = NaN | NegInf | Fin rat | PosInf

fun jsAdd :: "jsnum \<Rightarrow> jsnum \<Rightarrow> jsnum" where
  "jsAdd NaN y = NaN"
| "jsAdd x NaN = NaN"
| "jsAdd PosInf NegInf = NaN"
| "jsAdd NegInf PosInf = NaN"
| "jsAdd PosInf y = PosInf"
| "jsAdd x PosInf = PosInf"
| "jsAdd NegInf y = NegInf"
| "jsAdd x NegInf = NegInf"
| "jsAdd (Fin a) (Fin b) = Fin (a + b)"

fun jsNeg :: "jsnum \<Rightarrow> jsnum" where
  "jsNeg NaN = NaN"
| "jsNeg NegInf = PosInf"
| "jsNeg PosInf = NegInf"
| "jsNeg (Fin a) = Fin (- a)"

text \<open>Division; a zero divisor is the positive zero (the program divides by a count).\<close>

fun jsDiv :: "jsnum \<Rightarrow> jsnum \<Rightarrow> jsnum" where
  "jsDiv NaN y = NaN"
| "jsDiv x NaN = NaN"
| "jsDiv (Fin a) (Fin b) =
     (if b = 0 then (if a = 0 then NaN else if 0 < a then PosInf else NegInf)
      else Fin (a / b))"
| "jsDiv (Fin a) y = Fin 0"
| "jsDiv PosInf (Fin b) = (if 0 \<le> b then PosInf else NegInf)"
| "jsDiv NegInf (Fin b) = (if 0 \<le> b then NegInf else PosInf)"
| "jsDiv x y = NaN"

text \<open>The comparison \<open>x >= y\<close>.\<close>

fun jsGe :: "jsnum \<Rightarrow> jsnum \<Rightarrow> bool" where
  "jsGe NaN y = False"
| "jsGe x NaN = False"
| "jsGe PosInf y = True"
| "jsGe x NegInf = True"
| "jsGe (Fin a) (Fin b) = (b \<le> a)"
| "jsGe x y = False"

subsection \<open>Reading numbers from strings\<close>

definition isWhite :: "char \<Rightarrow> bool" where
  "isWhite c = ((of_char c :: nat) \<in> {9, 10, 11, 12, 13, 32, 160})"

definition isDigit :: "char \<Rightarrow> bool" where
  "isDigit c = (48 \<le> (of_char c :: nat) \<and> (of_char c :: nat) \<le> 57)"

definition hexDigit :: "char \<Rightarrow> nat option" where
  "hexDigit c =
     (let n = (of_char c :: nat)
      in if 48 \<le> n \<and> n \<le> 57 then Some (n - 48)
         else if 97 \<le> n \<and> n \<le> 102 then Some (n - 87)
         else if 65 \<le> n \<and> n \<le> 70 then Some (n - 55)
         else None)"

definition isRadixDigit :: "int \<Rightarrow> char \<Rightarrow> bool" where
  "isRadixDigit radix c = (case hexDigit c of None \<Rightarrow> False | Some d \<Rightarrow> int d < radix)"

text \<open>The value of a run of digits; every character of \<open>ds\<close> is a digit of the radix.\<close>

definition radixVal :: "int \<Rightarrow> string \<Rightarrow> int" where
  "radixVal radix ds =
     foldl (\<lambda>a c. radix * a + (case hexDigit c of None \<Rightarrow> 0 | Some d \<Rightarrow> int d)) 0 ds"

text \<open>
  \<open>parseInt(string)\<close> with no radix: leading white space is dropped, a sign is read, a
  \<open>0x\<close> or \<open>0X\<close> prefix selects radix 16, and the longest run of digits is the value;
  no digit at all gives \<open>NaN\<close>, which is \<open>None\<close> here. The value is exact.
\<close>

definition parseInt :: "string \<Rightarrow> int option" where
  "parseInt s =
     (let t = dropWhile isWhite s;
          sign = (case t of c # r \<Rightarrow> if c = CHR ''-'' then - 1 else 1 | [] \<Rightarrow> (1::int));
          u = (case t of c # r \<Rightarrow> if c = CHR ''-'' \<or> c = CHR ''+'' then r else t | [] \<Rightarrow> []);
          hex = (startsWith u ''0x'' \<or> startsWith u ''0X'');
          radix = (if hex then 16 else 10);
          z = takeWhile (isRadixDigit radix) (if hex then drop 2 u else u)
      in if z = [] then None else Some (sign * radixVal radix z))"

text \<open>
  \<open>String(n)\<close> for the result of \<open>parseInt\<close> or for a loop counter: the decimal digits
  with a minus sign, or \<open>NaN\<close>. (Numbers from \<open>10^21\<close> on print with an exponent; they
  are outside the model.)
\<close>

function showNat :: "int \<Rightarrow> string" where
  "showNat n =
     (if n < 10 then [char_of (48 + n)] else showNat (n div 10) @ [char_of (48 + n mod 10)])"
  by pat_completeness auto
termination
  by (relation "measure nat") auto

declare showNat.simps [simp del]

definition numToString :: "int option \<Rightarrow> string" where
  "numToString x =
     (case x of
        None \<Rightarrow> ''NaN''
      | Some n \<Rightarrow> if n < 0 then CHR ''-'' # showNat (- n) else showNat n)"

text \<open>
  \<open>parseFloat(string)\<close>: leading white space is dropped and the longest prefix that is a
  decimal literal (optional sign; \<open>Infinity\<close>, or digits with an optional fraction and
  an optional exponent) is the value; no such prefix gives \<open>NaN\<close>.
\<close>

definition exponentPart :: "string \<Rightarrow> int" where
  "exponentPart r =
     (case r of
        [] \<Rightarrow> 0
      | e # t \<Rightarrow>
          if e = CHR ''e'' \<or> e = CHR ''E'' then
            (case t of
               [] \<Rightarrow> 0
             | g # ds \<Rightarrow>
                 if g = CHR ''-'' then
                   (if takeWhile isDigit ds = [] then 0
                    else - radixVal 10 (takeWhile isDigit ds))
                 else if g = CHR ''+'' then radixVal 10 (takeWhile isDigit ds)
                 else radixVal 10 (takeWhile isDigit t))
          else 0)"

definition scale10 :: "rat \<Rightarrow> int \<Rightarrow> rat" where
  "scale10 m e = (if 0 \<le> e then m * 10 ^ nat e else m / 10 ^ nat (- e))"

definition strUnsignedDecimal :: "string \<Rightarrow> jsnum" where
  "strUnsignedDecimal s =
     (if startsWith s ''Infinity'' then PosInf
      else
        let ip = takeWhile isDigit s;
            r1 = dropWhile isDigit s;
            dot = (case r1 of [] \<Rightarrow> False | c # t \<Rightarrow> c = CHR ''.'');
            fp = (if dot then takeWhile isDigit (tl r1) else []);
            r2 = (if dot then dropWhile isDigit (tl r1) else r1)
        in if ip = [] \<and> fp = [] then NaN
           else Fin (scale10
                  (of_int (radixVal 10 ip) + of_int (radixVal 10 fp) / 10 ^ length fp)
                  (exponentPart r2)))"

definition parseFloat :: "string \<Rightarrow> jsnum" where
  "parseFloat s =
     (case dropWhile isWhite s of
        [] \<Rightarrow> NaN
      | c # r \<Rightarrow>
          if c = CHR ''-'' then jsNeg (strUnsignedDecimal r)
          else if c = CHR ''+'' then strUnsignedDecimal r
          else strUnsignedDecimal (c # r))"

text \<open>\<open>parseFloat\<close> of a property read: \<open>undefined\<close> is first turned into a string.\<close>

definition parseFloatU :: "string option \<Rightarrow> jsnum" where
  "parseFloatU v = (case v of None \<Rightarrow> parseFloat ''undefined'' | Some s \<Rightarrow> parseFloat s)"

section \<open>Reading the data file\<close>

text \<open>
  \<open>parseLine\<close>: the text after the first double quote, \<open>lastIndexOf - 1\<close> characters of
  it, split on the separator.
\<close>

definition parseLine :: "string \<Rightarrow> string \<Rightarrow> string list" where
  "parseLine line sep =
     split (substr line (indexOf line (CHR 0x22) + 1) (lastIndexOf line (CHR 0x22) - 1)) sep"

definition addIndicator :: "Report \<Rightarrow> Indicator \<Rightarrow> Report" where
  "addIndicator r indicator = r\<lparr>indicators := indicators r @ [indicator]\<rparr>"

text \<open>
  The \<open>forEach\<close> over \<open>years\<close> that fills \<open>indicator.values\<close>, with its running \<open>index\<close>.
  It runs only behind the guard \<open>cols.length >= years.length + 4\<close>, so every
  \<open>cols[index]\<close> it reads exists.
\<close>

fun fillValues ::
  "string list \<Rightarrow> string list \<Rightarrow> nat \<Rightarrow> (string \<times> string) list \<Rightarrow> (string \<times> string) list"
where
  "fillValues [] cols index vals = vals"
| "fillValues (year # ys) cols index vals =
     fillValues ys cols (index + 1)
       (AList.update (numToString (parseInt year)) (cols ! index) vals)"

definition newIndicator :: "string list \<Rightarrow> string list \<Rightarrow> Indicator" where
  "newIndicator ys cols =
     \<lparr>country = cols ! 0, countryCode = cols ! 1, name = cols ! 2, code = cols ! 3,
      values = fillValues ys cols 4 []\<rparr>"

text \<open>
  The state of one \<open>readDataFile\<close> call: the report being filled (\<open>this\<close>), the flag
  \<open>gotHeader\<close> of the closure, and the lines written by \<open>console.log\<close>.
\<close>

record Reader =
  report :: Report
  gotHeader :: bool
  console :: "string list"

definition sep :: string where
  "sep = [CHR 0x22, CHR '','', CHR 0x22]"

text \<open>The handler of the \<open>line\<close> event.\<close>

definition onLine :: "Reader \<Rightarrow> string \<Rightarrow> Reader" where
  "onLine st input =
     (let cols = parseLine input sep
      in if cols = [] \<or> \<not> gotHeader st then
           (if (case cols of [] \<Rightarrow> False | c # cs \<Rightarrow> c = ''Country Name'')
            then st\<lparr>gotHeader := True,
                    report := (report st)\<lparr>years := years (report st) @ drop 4 cols\<rparr>\<rparr>
            else st)
         else if length cols < length (years (report st)) + 4 then
           st\<lparr>console := console st @ [''ignored invalid line :  '' @ input]\<rparr>
         else
           st\<lparr>report := addIndicator (report st) (newIndicator (years (report st)) cols)\<rparr>)"

definition newReport :: Report where
  "newReport = \<lparr>years = [], indicators = []\<rparr>"

text \<open>
  \<open>readDataFile\<close> on a report, given the lines the \<open>readline\<close> interface delivers until
  it closes. \<open>readLines\<close> keeps the console as well; the promise resolves with the
  report. (The two rejections on a signal from outside are not modelled.)
\<close>

definition readLines :: "Report \<Rightarrow> string list \<Rightarrow> Reader" where
  "readLines r ls = foldl onLine \<lparr>report = r, gotHeader = False, console = []\<rparr> ls"

definition readDataFile :: "Report \<Rightarrow> string list \<Rightarrow> Report" where
  "readDataFile r ls = report (readLines r ls)"

section \<open>Sorting\<close>

text \<open>
  \<open>Array.prototype.sort\<close> with a comparator is a stable sort; \<open>localeCompare\<close> depends
  on the host's locale and is a parameter.
\<close>

fun insertBy :: "('a \<Rightarrow> 'a \<Rightarrow> int) \<Rightarrow> 'a \<Rightarrow> 'a list \<Rightarrow> 'a list" where
  "insertBy cmp x [] = [x]"
| "insertBy cmp x (y # ys) = (if cmp x y \<le> 0 then x # y # ys else y # insertBy cmp x ys)"

definition sortWith :: "('a \<Rightarrow> 'a \<Rightarrow> int) \<Rightarrow> 'a list \<Rightarrow> 'a list" where
  "sortWith cmp xs = foldr (insertBy cmp) xs []"

definition sortBy :: "(string \<Rightarrow> string \<Rightarrow> int) \<Rightarrow> string \<Rightarrow> Report \<Rightarrow> Report" where
  "sortBy localeCompare sortField r =
     (if sortField = ''name'' then
        r\<lparr>indicators := sortWith (\<lambda>a b. localeCompare (name a) (name b)) (indicators r)\<rparr>
      else if sortField = ''code'' then
        r\<lparr>indicators := sortWith (\<lambda>a b. localeCompare (code a) (code b)) (indicators r)\<rparr>
      else r)"

section \<open>The two queries\<close>

datatype jsError = TypeError

definition valueAt :: "Indicator \<Rightarrow> string \<Rightarrow> string option" where
  "valueAt indicator key = map_of (values indicator) key"

definition yearKey :: "int \<Rightarrow> string" where
  "yearKey i = numToString (Some i)"

text \<open>
  One of the two \<open>for\<close> loops of the reducer, from \<open>i\<close> to \<open>endYear\<close> with the total so
  far. \<open>None\<close> is the \<open>return\<close> inside the loop (an empty string was met); \<open>Some\<close> is the
  total with which the loop ends. The years are integers.
\<close>

function sumLoop :: "Indicator \<Rightarrow> int \<Rightarrow> int \<Rightarrow> jsnum \<Rightarrow> jsnum option" where
  "sumLoop indicator i endYear tot =
     (if i \<le> endYear then
        (if valueAt indicator (yearKey i) = Some []
         then None
         else sumLoop indicator (i + 1) endYear
                (jsAdd tot (parseFloatU (valueAt indicator (yearKey i)))))
      else Some tot)"
  by pat_completeness auto
termination
  by (relation "measure (\<lambda>(indicator, i, endYear, tot). nat (endYear + 1 - i))") auto

declare sumLoop.simps [simp del]

text \<open>The callback given to \<open>reduce\<close>; \<open>previous\<close> is \<open>null\<close> at the start.\<close>

definition higher :: "int \<Rightarrow> int \<Rightarrow> Indicator option \<Rightarrow> Indicator \<Rightarrow> Indicator option" where
  "higher startYear endYear previous current =
     (case previous of
        None \<Rightarrow> Some current
      | Some p \<Rightarrow>
          (case sumLoop current startYear endYear (Fin 0) of
             None \<Rightarrow> Some p
           | Some currentTotal \<Rightarrow>
               (case sumLoop p startYear endYear (Fin 0) of
                  None \<Rightarrow> Some current
                | Some previousTotal \<Rightarrow>
                    if jsGe currentTotal previousTotal then Some current else Some p)))"

definition matching :: "Report \<Rightarrow> string \<Rightarrow> Indicator list" where
  "matching r indicatorName = filter (\<lambda>v. name v = indicatorName) (indicators r)"

definition winner :: "Report \<Rightarrow> string \<Rightarrow> int \<Rightarrow> int \<Rightarrow> Indicator option" where
  "winner r indicatorName startYear endYear =
     foldl (higher startYear endYear) None (matching r indicatorName)"

text \<open>Reading \<open>.country\<close> of \<open>null\<close> throws a \<open>TypeError\<close>.\<close>

definition countryOfHighestAverageBewteenYears ::
  "Report \<Rightarrow> string \<Rightarrow> int \<Rightarrow> int \<Rightarrow> jsError + string"
where
  "countryOfHighestAverageBewteenYears r indicatorName startYear endYear =
     (case winner r indicatorName startYear endYear of
        None \<Rightarrow> Inl TypeError
      | Some w \<Rightarrow> Inr (country w))"

text \<open>
  \<open>Object.keys\<close>: the keys that are array indices (canonical decimal numerals up to
  \<open>2^32 - 2\<close>) in ascending order, then the other keys in insertion order.
\<close>

definition isArrayIndex :: "string \<Rightarrow> bool" where
  "isArrayIndex k =
     (k \<noteq> [] \<and> list_all isDigit k \<and> (k = ''0'' \<or> hd k \<noteq> CHR ''0'')
      \<and> radixVal 10 k \<le> 4294967294)"

definition objectKeys :: "(string \<times> 'a) list \<Rightarrow> string list" where
  "objectKeys obj =
     sort_key (radixVal 10) (filter isArrayIndex (map fst obj))
     @ filter (\<lambda>k. \<not> isArrayIndex k) (map fst obj)"

record Average =
  total' :: jsnum
  count :: nat
  avg :: jsnum

text \<open>
  The body of the inner \<open>forEach\<close>, for one indicator and one of its years. (The table
  \<open>averagies\<close> is a plain object; the names it inherits from \<open>Object.prototype\<close> are not
  year keys and are left out.)
\<close>

definition accumulateYear ::
  "Indicator \<Rightarrow> (string \<times> Average) list \<Rightarrow> string \<Rightarrow> (string \<times> Average) list"
where
  "accumulateYear indicator averagies year =
     (let entry = (case map_of averagies year of
                     None \<Rightarrow> \<lparr>total' = Fin 0, count = 0, avg = Fin 0\<rparr>
                   | Some e \<Rightarrow> e);
          started = (case map_of averagies year of
                       None \<Rightarrow> AList.update year entry averagies
                     | Some e \<Rightarrow> averagies)
      in if valueAt indicator year = Some [] then started
         else
           let added = entry\<lparr>total' := jsAdd (total' entry) (parseFloatU (valueAt indicator year)),
                             count := count entry + 1\<rparr>;
               averaged = (if count added \<noteq> 0
                           then added\<lparr>avg := jsDiv (total' added) (Fin (of_nat (count added)))\<rparr>
                           else added)
           in AList.update year averaged started)"

definition accumulate ::
  "(string \<times> Average) list \<Rightarrow> Indicator \<Rightarrow> (string \<times> Average) list"
where
  "accumulate averagies indicator =
     foldl (accumulateYear indicator) averagies (objectKeys (values indicator))"

definition averagiesOf :: "Report \<Rightarrow> string \<Rightarrow> (string \<times> Average) list" where
  "averagiesOf r indicatorName = foldl accumulate [] (matching r indicatorName)"

text \<open>
  The callback of the final \<open>reduce\<close> over the year keys. Reading \<open>.avg\<close> of a missing
  entry throws.
\<close>

definition pickYear :: "(string \<times> Average) list \<Rightarrow> string \<Rightarrow> string \<Rightarrow> jsError + string" where
  "pickYear averagies previous current =
     (if previous = [] then Inr current
      else if current = [] then Inr previous
      else
        case map_of averagies current of
          None \<Rightarrow> Inl TypeError
        | Some c \<Rightarrow>
            (case map_of averagies previous of
               None \<Rightarrow> Inl TypeError
             | Some p \<Rightarrow> if jsGe (avg c) (avg p) then Inr current else Inr previous))"

fun reduceYears ::
  "(string \<times> Average) list \<Rightarrow> jsError + string \<Rightarrow> string list \<Rightarrow> jsError + string"
where
  "reduceYears averagies acc [] = acc"
| "reduceYears averagies (Inl e) (k # ks) = Inl e"
| "reduceYears averagies (Inr previous) (k # ks) =
     reduceYears averagies (pickYear averagies previous k) ks"

text \<open>\<open>reduce\<close> without an initial value throws a \<open>TypeError\<close> on the empty array.\<close>

definition yearOfHighestAmongAllCountries :: "Report \<Rightarrow> string \<Rightarrow> jsError + string" where
  "yearOfHighestAmongAllCountries r indicatorName =
     (let averagies = averagiesOf r indicatorName
      in case objectKeys averagies of
           [] \<Rightarrow> Inl TypeError
         | k # ks \<Rightarrow> reduceYears averagies (Inr k) ks)"

section \<open>The program\<close>

text \<open>
  A run of the program: what it printed, which files it opened, and how it ended.
  \<open>fs\<close> gives the lines of the file at a path.
\<close>

datatype Ending = Exit int | Finished | Uncaught jsError

record Run =
  printed :: "string list"
  opened :: "string list"
  ending :: Ending

definition usage :: "string list" where
  "usage = [''Usage : ts-node index.ts <data file path>'',
            ''Example : ts-node src/index.ts data.csv'']"

definition main ::
  "(string \<Rightarrow> string list) \<Rightarrow> (string \<Rightarrow> string \<Rightarrow> int) \<Rightarrow> string list \<Rightarrow> Run"
where
  "main fs localeCompare argv =
     (if length argv < 3 then \<lparr>printed = usage, opened = [], ending = Exit 1\<rparr>
      else
        let st = readLines newReport (fs (argv ! 2));
            r = sortBy localeCompare ''code'' (report st);
            name1 = ''Urban population growth (annual %)'';
            name2 = ''CO2 emissions (kt)''
        in (case countryOfHighestAverageBewteenYears r name1 1980 1990 of
              Inl e \<Rightarrow> \<lparr>printed = console st, opened = [argv ! 2], ending = Uncaught e\<rparr>
            | Inr result \<Rightarrow>
                (let line1 = ''The country with the highest average '' @ name1
                             @ '' between 1980 and 1990 : '' @ result
                 in (case yearOfHighestAmongAllCountries r name2 of
                       Inl e \<Rightarrow>
                         \<lparr>printed = console st @ [line1], opened = [argv ! 2],
                          ending = Uncaught e\<rparr>
                     | Inr result2 \<Rightarrow>
                         \<lparr>printed = console st @ [line1,
                            ''The year with the highest averaged '' @ name2 @ '' : ''
                            @ result2],
                          opened = [argv ! 2], ending = Finished\<rparr>))))"

section \<open>Notions used in the statements\<close>

text \<open>
  An indicator is disqualified for a range of years when one of its values there is the
  empty string; this is when the reducer's loop over it returns early.
\<close>

definition disqualified :: "Indicator \<Rightarrow> int \<Rightarrow> int \<Rightarrow> bool" where
  "disqualified indicator startYear endYear =
     (\<exists>i\<in>set [startYear..endYear]. valueAt indicator (yearKey i) = Some [])"


text \<open>A line with fewer fields than the header's years and the four leading columns.\<close>

definition shortRow :: "string list \<Rightarrow> string \<Rightarrow> bool" where
  "shortRow ys input = (length (parseLine input sep) < length ys + 4)"

subsection \<open>Example data\<close>

definition headerLine :: string where
  "headerLine =
     ''\"Country Name\",\"Country Code\",\"Indicator Name\",\"Indicator Code\",\"1980\",\"1981\"''"

definition shortLine :: string where
  "shortLine = ''\"B\",\"BB\",\"X\"''"

definition goodLine :: string where
  "goodLine = ''\"A\",\"AA\",\"X\",\"P\",\"2\",\"4\"''"

definition cA :: Indicator where
  "cA = \<lparr>country = ''A'', countryCode = ''AA'', name = ''X'', code = ''P'',
         values = [(''1980'', ''2''), (''1981'', ''4'')]\<rparr>"

definition cB :: Indicator where
  "cB = \<lparr>country = ''B'', countryCode = ''BB'', name = ''X'', code = ''P'',
         values = [(''1980'', ''5''), (''1981'', ''1'')]\<rparr>"

definition cE :: Indicator where
  "cE = \<lparr>country = ''E'', countryCode = ''EE'', name = ''X'', code = ''P'',
         values = [(''1980'', ''9''), (''1981'', [])]\<rparr>"

definition cF :: Indicator where
  "cF = \<lparr>country = ''F'', countryCode = ''FF'', name = ''X'', code = ''P'',
         values = [(''1980'', []), (''1981'', ''7'')]\<rparr>"

definition stHeader :: Reader where
  "stHeader = \<lparr>report = \<lparr>years = [''1980'', ''1981''], indicators = []\<rparr>,
               gotHeader = True, console = []\<rparr>"

definition dataFile :: "string list" where
  "dataFile =
     [''\"Country Name\",\"Country Code\",\"Indicator Name\",\"Indicator Code\",\"1980\"'',
      ''\"A\",\"AA\",\"Urban population growth (annual %)\",\"U\",\"1\"'',
      ''\"A\",\"AA\",\"CO2 emissions (kt)\",\"C\",\"2\"'']"

subsection \<open>Well-formed input\<close>

text \<open>
  A header line is one whose first parsed field is \<open>Country Name\<close>; the data rows are
  the lines after the first header line. A header is well formed when it has the four
  leading columns and its year labels parse to pairwise different integers.
\<close>

definition isHeader :: "string \<Rightarrow> bool" where
  "isHeader l = (case parseLine l sep of [] \<Rightarrow> False | c # cs \<Rightarrow> c = ''Country Name'')"

definition rowsAfterHeader :: "string list \<Rightarrow> string list" where
  "rowsAfterHeader ls = tl (dropWhile (\<lambda>l. \<not> isHeader l) ls)"



subsection \<open>Averages\<close>





subsection \<open>Auxiliary notions of the proofs\<close>








section \<open>Lines after the header\<close>

lemma splitFrom_not_Nil: "splitFrom sp acc s \<noteq> []"
  by (induction sp acc s rule: splitFrom.induct) auto

lemma parseLine_not_Nil: "parseLine line sep \<noteq> []"
  by (simp add: parseLine_def split_def sep_def splitFrom_not_Nil)

lemma onLine_short:
  "gotHeader st \<Longrightarrow> length (parseLine input sep) < length (years (report st)) + 4 \<Longrightarrow>
   onLine st input = st\<lparr>console := console st @ [''ignored invalid line :  '' @ input]\<rparr>"
  by (simp add: onLine_def Let_def parseLine_not_Nil)

lemma onLine_long:
  "gotHeader st \<Longrightarrow> \<not> length (parseLine input sep) < length (years (report st)) + 4 \<Longrightarrow>
   onLine st input =
     st\<lparr>report :=
          addIndicator (report st) (newIndicator (years (report st)) (parseLine input sep))\<rparr>"
  by (simp add: onLine_def Let_def parseLine_not_Nil)

text \<open>Once the header is in, a run over further lines only appends rows and messages.\<close>

lemma foldl_onLine_after_header:
  "gotHeader st \<Longrightarrow>
   foldl onLine st ls =
     st\<lparr>report := (report st)\<lparr>indicators := indicators (report st)
           @ map (\<lambda>l. newIndicator (years (report st)) (parseLine l sep))
               (filter (\<lambda>l. \<not> shortRow (years (report st)) l) ls)\<rparr>,
        console := console st
           @ map (\<lambda>l. ''ignored invalid line :  '' @ l)
               (filter (shortRow (years (report st))) ls)\<rparr>"
proof (induction ls arbitrary: st)
  case Nil
  then show ?case by simp
next
  case (Cons l ls)
  show ?case
  proof (cases "shortRow (years (report st)) l")
    case True
    with Cons.prems have step:
      "onLine st l = st\<lparr>console := console st @ [''ignored invalid line :  '' @ l]\<rparr>"
      by (simp add: onLine_short shortRow_def)
    show ?thesis
      using True Cons.prems by (simp add: step Cons.IH)
  next
    case False
    with Cons.prems have step: "onLine st l =
       st\<lparr>report :=
            addIndicator (report st) (newIndicator (years (report st)) (parseLine l sep))\<rparr>"
      by (simp add: onLine_long shortRow_def)
    show ?thesis
      using False Cons.prems by (simp add: step Cons.IH addIndicator_def)
  qed
qed

text \<open>
  C6. Parsing the header line with the columns Country Name, Country Code, Indicator
  Name, Indicator Code, 1980, 1981 (by \<open>substr\<close> from one past the first quote for
  \<open>lastIndexOf - 1\<close> characters, then \<open>split\<close> on quote-comma-quote) gives the six
  fields, and reading a file that consists of this line leaves \<open>years\<close> as the fields
  from index 4 on: 1980 and 1981.
\<close>

theorem header_years:
  "parseLine headerLine sep
     = [''Country Name'', ''Country Code'', ''Indicator Name'', ''Indicator Code'',
        ''1980'', ''1981'']
   \<and> years (readDataFile newReport [headerLine]) = [''1980'', ''1981'']"
  by code_simp

text \<open>
  C5. After the header has been captured, a line whose field count is below
  \<open>years.length + 4\<close> only adds the message to the console: the report and the flag
  stay as they are. Over any further lines the run goes on: the indicators added are
  exactly those of the lines that are not short, in order, and the console gets one
  message for each short line.
\<close>

theorem short_rows_dropped:
  "gotHeader st \<Longrightarrow>
   (shortRow (years (report st)) input \<longrightarrow>
      onLine st input = st\<lparr>console := console st @ [''ignored invalid line :  '' @ input]\<rparr>)
   \<and> indicators (report (foldl onLine st ls))
       = indicators (report st)
         @ map (\<lambda>l. newIndicator (years (report st)) (parseLine l sep))
             (filter (\<lambda>l. \<not> shortRow (years (report st)) l) ls)
   \<and> console (foldl onLine st ls)
       = console st
         @ map (\<lambda>l. ''ignored invalid line :  '' @ l) (filter (shortRow (years (report st))) ls)"
  by (simp add: foldl_onLine_after_header onLine_short shortRow_def)

lemma short_shortLine: "shortRow [''1980'', ''1981''] shortLine"
  by code_simp

lemma not_short_goodLine: "\<not> shortRow [''1980'', ''1981''] goodLine"
  by code_simp

lemma good_row: "newIndicator [''1980'', ''1981''] (parseLine goodLine sep) = cA"
  by code_simp

theorem short_rows_dropped_witness:
  "gotHeader stHeader
   \<and> shortRow (years (report stHeader)) shortLine
   \<and> onLine stHeader shortLine
       = stHeader\<lparr>console := [''ignored invalid line :  '' @ shortLine]\<rparr>
   \<and> indicators (report (foldl onLine stHeader [shortLine, goodLine])) = [cA]
   \<and> console (foldl onLine stHeader [shortLine, goodLine])
       = [''ignored invalid line :  '' @ shortLine]"
proof -
  have g: "gotHeader stHeader" by (simp add: stHeader_def)
  have y: "years (report stHeader) = [''1980'', ''1981'']" by (simp add: stHeader_def)
  have c: "console stHeader = []" and i: "indicators (report stHeader) = []"
    by (simp_all add: stHeader_def)
  from short_rows_dropped [OF g, of shortLine "[shortLine, goodLine]"]
  show ?thesis
    using g short_shortLine not_short_goodLine good_row
    by (simp add: y c i del: foldl_Cons foldl_Nil)
qed

section \<open>The frame of sorting\<close>

text \<open>
  C10. \<open>sortBy\<close> with a sort field that is neither \<open>name\<close> nor \<open>code\<close> returns the report
  as it was: the same indicators in the same order, the same years.
\<close>

theorem sortBy_other_field:
  "sortField \<noteq> ''name'' \<Longrightarrow> sortField \<noteq> ''code'' \<Longrightarrow> sortBy localeCompare sortField r = r"
  by (simp add: sortBy_def)

theorem sortBy_other_field_witness:
  "''year'' \<noteq> ''name'' \<and> ''year'' \<noteq> ''code''
   \<and> sortBy (\<lambda>a b. 0) ''year'' \<lparr>years = [''1980'', ''1981''], indicators = [cB, cA]\<rparr>
       = \<lparr>years = [''1980'', ''1981''], indicators = [cB, cA]\<rparr>"
  using sortBy_other_field [of "''year''" "\<lambda>a b. 0"]
  by simp

section \<open>The header and the values of a row\<close>

lemma onLine_not_header: "\<not> gotHeader st \<Longrightarrow> \<not> isHeader l \<Longrightarrow> onLine st l = st"
  by (simp add: onLine_def isHeader_def Let_def)

lemma onLine_header:
  "\<not> gotHeader st \<Longrightarrow> isHeader l \<Longrightarrow>
   onLine st l = st\<lparr>gotHeader := True,
                    report := (report st)\<lparr>years := years (report st) @ drop 4 (parseLine l sep)\<rparr>\<rparr>"
  by (simp add: onLine_def isHeader_def Let_def)

lemma foldl_onLine_no_header:
  "\<not> gotHeader st \<Longrightarrow> find isHeader ls = None \<Longrightarrow> foldl onLine st ls = st"
  by (induction ls) (auto simp: onLine_not_header split: if_splits)

lemma foldl_onLine_to_header:
  "\<not> gotHeader st \<Longrightarrow> find isHeader ls = Some h \<Longrightarrow>
   foldl onLine st ls = foldl onLine (onLine st h) (rowsAfterHeader ls) \<and> isHeader h"
  by (induction ls) (auto simp: onLine_not_header rowsAfterHeader_def split: if_splits)

lemma readLines_with_header:
  assumes "find isHeader ls = Some h"
  shows "readLines newReport ls =
     \<lparr>report = \<lparr>years = drop 4 (parseLine h sep),
                 indicators = map (\<lambda>l. newIndicator (drop 4 (parseLine h sep)) (parseLine l sep))
                   (filter (\<lambda>l. \<not> shortRow (drop 4 (parseLine h sep)) l) (rowsAfterHeader ls))\<rparr>,
      gotHeader = True,
      console = map (\<lambda>l. ''ignored invalid line :  '' @ l)
                  (filter (shortRow (drop 4 (parseLine h sep))) (rowsAfterHeader ls))\<rparr>"
proof -
  let ?st = "\<lparr>report = newReport, gotHeader = False, console = []\<rparr>"
  have ng: "\<not> gotHeader ?st" by simp
  from foldl_onLine_to_header [OF ng assms]
  have f: "foldl onLine ?st ls = foldl onLine (onLine ?st h) (rowsAfterHeader ls)" and h: "isHeader h"
    by simp_all
  have o: "onLine ?st h = \<lparr>report = \<lparr>years = drop 4 (parseLine h sep), indicators = []\<rparr>,
                           gotHeader = True, console = []\<rparr>"
    using onLine_header [OF ng h] by (simp add: newReport_def)
  show ?thesis
    unfolding readLines_def f o
    by (subst foldl_onLine_after_header) simp_all
qed




subsection \<open>Year keys\<close>

lemma digit_char_all:
  "\<forall>d\<in>set [0..9]. hexDigit (char_of (48 + d)) = Some (nat d) \<and> isDigit (char_of (48 + d))
      \<and> char_of (48 + d) \<noteq> CHR ''-'' \<and> char_of (48 + d) \<noteq> CHR ''N''"
  by code_simp

lemma digit_char:
  assumes "0 \<le> d" "d < 10"
  shows "hexDigit (char_of (48 + d)) = Some (nat d)" "isDigit (char_of (48 + d))"
    "char_of (48 + d) \<noteq> CHR ''-''" "char_of (48 + d) \<noteq> CHR ''N''"
  using digit_char_all assms by auto



lemma showNat_hd: "0 \<le> n \<Longrightarrow> showNat n \<noteq> [] \<and> isDigit (hd (showNat n))"
proof (induction n rule: showNat.induct)
  case (1 n)
  show ?case
  proof (cases "n < 10")
    case True
    with "1.prems" show ?thesis
      by (subst (1 2) showNat.simps) (simp add: digit_char)
  next
    case False
    then have "0 \<le> n div 10" by simp
    with "1.IH" False have "showNat (n div 10) \<noteq> [] \<and> isDigit (hd (showNat (n div 10)))" by simp
    then show ?thesis
      using False by (subst (1 2) showNat.simps) simp
  qed
qed


lemma isDigit_not_minus: "isDigit c \<Longrightarrow> c \<noteq> CHR ''-'' \<and> c \<noteq> CHR ''N''"
  by (auto simp: isDigit_def)

lemma showNat_first:
  "0 \<le> n \<Longrightarrow> \<exists>c cs. showNat n = c # cs \<and> c \<noteq> CHR ''-'' \<and> c \<noteq> CHR ''N''"
  using showNat_hd [of n] isDigit_not_minus [of "hd (showNat n)"]
  by (cases "showNat n") auto


lemma numToString_None: "numToString None = ''NaN''"
  by (simp add: numToString_def)

lemma numToString_neg: "n < 0 \<Longrightarrow> numToString (Some n) = CHR ''-'' # showNat (- n)"
  by (simp add: numToString_def)

lemma numToString_pos: "0 \<le> n \<Longrightarrow> numToString (Some n) = showNat n"
  by (simp add: numToString_def)




lemma numToString_not_Nil: "numToString x \<noteq> []"
proof (cases x)
  case None
  then show ?thesis by (simp add: numToString_None)
next
  case (Some n)
  show ?thesis
  proof (cases "n < 0")
    case True
    with Some show ?thesis by (simp add: numToString_neg)
  next
    case False
    then have "0 \<le> n" by simp
    from showNat_first [OF this] Some \<open>0 \<le> n\<close> show ?thesis
      by (auto simp: numToString_pos)
  qed
qed







text \<open>What a whole run leaves on the console and under which keys.\<close>

lemma console_readLines:
  "m \<in> set (console (readLines newReport ls)) \<Longrightarrow> \<exists>l. m = ''ignored invalid line :  '' @ l"
proof (cases "find isHeader ls")
  case None
  assume "m \<in> set (console (readLines newReport ls))"
  with None show ?thesis
    by (simp add: readLines_def foldl_onLine_no_header)
next
  case (Some h)
  assume "m \<in> set (console (readLines newReport ls))"
  then show ?thesis
    by (auto simp: readLines_with_header [OF Some])
qed

lemma fillValues_key_set:
  "fst ` set (fillValues ys cols i vals)
     = fst ` set vals \<union> (\<lambda>y. numToString (parseInt y)) ` set ys"
  by (induction ys arbitrary: i vals) (auto simp: dom_update)

lemma newIndicator_key_nonempty: "[] \<notin> fst ` set (values (newIndicator ys cols))"
proof
  assume "[] \<in> fst ` set (values (newIndicator ys cols))"
  then obtain y where "[] = numToString (parseInt y)"
    by (auto simp: newIndicator_def fillValues_key_set)
  then show False using numToString_not_Nil [of "parseInt y"] by simp
qed

lemma ingested_keys_nonempty:
  "ind \<in> set (indicators (readDataFile newReport ls)) \<Longrightarrow> [] \<notin> fst ` set (values ind)"
proof (cases "find isHeader ls")
  case None
  assume "ind \<in> set (indicators (readDataFile newReport ls))"
  with None show ?thesis
    by (simp add: readDataFile_def readLines_def foldl_onLine_no_header newReport_def)
next
  case (Some h)
  assume "ind \<in> set (indicators (readDataFile newReport ls))"
  then obtain cols where "ind = newIndicator (drop 4 (parseLine h sep)) cols"
    by (auto simp: readDataFile_def readLines_with_header [OF Some])
  then show ?thesis by (simp only: newIndicator_key_nonempty not_False_eq_True)
qed

section \<open>The country with the highest total\<close>

text \<open>A loop of the reducer returns early exactly when an empty string lies in its range.\<close>

lemma sumLoop_None_iff:
  "sumLoop ind i e t = None \<longleftrightarrow> (\<exists>j. i \<le> j \<and> j \<le> e \<and> valueAt ind (yearKey j) = Some [])"
proof (induction ind i e t rule: sumLoop.induct)
  case (1 ind i e t)
  show ?case
  proof (cases "i \<le> e")
    case False
    then show ?thesis by (subst sumLoop.simps) auto
  next
    case le: True
    show ?thesis
    proof (cases "valueAt ind (yearKey i) = Some []")
      case True
      with le show ?thesis by (subst sumLoop.simps) auto
    next
      case False
      have "sumLoop ind i e t
              = sumLoop ind (i + 1) e (jsAdd t (parseFloatU (valueAt ind (yearKey i))))"
        using le False by (subst sumLoop.simps) simp
      also have "\<dots> = None \<longleftrightarrow> (\<exists>j. i + 1 \<le> j \<and> j \<le> e \<and> valueAt ind (yearKey j) = Some [])"
        using "1.IH" [OF le False] .
      also have "\<dots> \<longleftrightarrow> (\<exists>j. i \<le> j \<and> j \<le> e \<and> valueAt ind (yearKey j) = Some [])"
      proof
        assume "\<exists>j. i + 1 \<le> j \<and> j \<le> e \<and> valueAt ind (yearKey j) = Some []"
        then obtain j where "i + 1 \<le> j" "j \<le> e" "valueAt ind (yearKey j) = Some []"
          by blast
        then show "\<exists>j. i \<le> j \<and> j \<le> e \<and> valueAt ind (yearKey j) = Some []"
          by (intro exI [of _ j]) simp
      next
        assume "\<exists>j. i \<le> j \<and> j \<le> e \<and> valueAt ind (yearKey j) = Some []"
        then obtain j where j: "i \<le> j" "j \<le> e" "valueAt ind (yearKey j) = Some []"
          by blast
        with False have "j \<noteq> i" by auto
        with j show "\<exists>j. i + 1 \<le> j \<and> j \<le> e \<and> valueAt ind (yearKey j) = Some []"
          by (intro exI [of _ j]) simp
      qed
      finally show ?thesis .
    qed
  qed
qed

lemma sumLoop_disqualified: "sumLoop ind s e t = None \<longleftrightarrow> disqualified ind s e"
  by (auto simp: sumLoop_None_iff disqualified_def)

lemma higher_None: "higher s e None current = Some current"
  by (simp add: higher_def)

lemma higher_current_disqualified:
  "disqualified current s e \<Longrightarrow> higher s e (Some p) current = Some p"
  using sumLoop_disqualified [of current s e "Fin 0"]
  by (auto simp: higher_def split: option.splits)



lemma foldl_higher_all_disqualified:
  "\<forall>c\<in>set cs. disqualified c s e \<Longrightarrow> foldl (higher s e) (Some f) cs = Some f"
  by (induction cs) (simp_all add: higher_current_disqualified)



lemma disq_cE: "disqualified cE 1980 1981"
  by code_simp

lemma disq_cF: "disqualified cF 1980 1981"
  by code_simp




text \<open>
  C9. If at least one indicator has the given name and every indicator with that name
  has an empty string somewhere in the range of years, the function returns the country
  of the first of them in the order of \<open>indicators\<close>.
\<close>

theorem all_disqualified_first_wins:
  "matching r indicatorName \<noteq> [] \<Longrightarrow>
   \<forall>c\<in>set (matching r indicatorName). disqualified c startYear endYear \<Longrightarrow>
   countryOfHighestAverageBewteenYears r indicatorName startYear endYear
     = Inr (country (hd (matching r indicatorName)))"
proof -
  assume ne: "matching r indicatorName \<noteq> []"
    and all: "\<forall>c\<in>set (matching r indicatorName). disqualified c startYear endYear"
  from ne obtain f rest where m: "matching r indicatorName = f # rest"
    by (cases "matching r indicatorName") auto
  with all have "\<forall>c\<in>set rest. disqualified c startYear endYear" by simp
  then have "foldl (higher startYear endYear) (Some f) rest = Some f"
    by (rule foldl_higher_all_disqualified)
  then have "winner r indicatorName startYear endYear = Some f"
    by (simp add: winner_def m higher_None)
  then show ?thesis
    by (simp add: countryOfHighestAverageBewteenYears_def m)
qed

theorem all_disqualified_first_wins_witness:
  "matching \<lparr>years = [''1980'', ''1981''], indicators = [cE, cF]\<rparr> ''X'' = [cE, cF]
   \<and> disqualified cE 1980 1981 \<and> disqualified cF 1980 1981
   \<and> countryOfHighestAverageBewteenYears
        \<lparr>years = [''1980'', ''1981''], indicators = [cE, cF]\<rparr> ''X'' 1980 1981 = Inr ''E''"
proof -
  let ?r = "\<lparr>years = [''1980'', ''1981''], indicators = [cE, cF]\<rparr>"
  have m: "matching ?r ''X'' = [cE, cF]"
    by (simp add: matching_def cE_def cF_def)
  have ne: "matching ?r ''X'' \<noteq> []" by (simp add: m)
  have all: "\<forall>c\<in>set (matching ?r ''X''). disqualified c 1980 1981"
    using disq_cE disq_cF by (simp add: m)
  have h: "country (hd (matching ?r ''X'')) = ''E''"
    by (simp only: m list.sel) (simp add: cE_def)
  from all_disqualified_first_wins [OF ne all] have
    "countryOfHighestAverageBewteenYears ?r ''X'' 1980 1981 = Inr ''E''"
    by (simp only: h)
  with m disq_cE disq_cF show ?thesis by simp
qed






text \<open>
  C3. With no indicator of the given name, both queries throw a \<open>TypeError\<close>: the first
  reads \<open>.country\<close> of the \<open>null\<close> it reduced to, the second reduces an empty array of
  keys without an initial value. Neither raises an error of its own that names the
  indicator.
\<close>

theorem no_match_TypeError:
  "matching r indicatorName = [] \<Longrightarrow>
   countryOfHighestAverageBewteenYears r indicatorName startYear endYear = Inl TypeError
   \<and> yearOfHighestAmongAllCountries r indicatorName = Inl TypeError"
  by (simp add: countryOfHighestAverageBewteenYears_def yearOfHighestAmongAllCountries_def
      winner_def averagiesOf_def objectKeys_def)

theorem no_match_TypeError_witness:
  "matching \<lparr>years = [''1980'', ''1981''], indicators = [cA, cB]\<rparr> ''Y'' = []
   \<and> countryOfHighestAverageBewteenYears
        \<lparr>years = [''1980'', ''1981''], indicators = [cA, cB]\<rparr> ''Y'' 1980 1981 = Inl TypeError
   \<and> yearOfHighestAmongAllCountries
        \<lparr>years = [''1980'', ''1981''], indicators = [cA, cB]\<rparr> ''Y'' = Inl TypeError"
proof -
  have m: "matching \<lparr>years = [''1980'', ''1981''], indicators = [cA, cB]\<rparr> ''Y'' = []"
    by (simp add: matching_def cA_def cB_def)
  show ?thesis
    using m no_match_TypeError [OF m, of 1980 1981] by simp
qed

theorem no_match_counterexample:
  "countryOfHighestAverageBewteenYears newReport ''CO2 emissions (kt)'' 1980 1990
     = Inl TypeError
   \<and> yearOfHighestAmongAllCountries newReport ''CO2 emissions (kt)'' = Inl TypeError"
  by code_simp

section \<open>The program's arguments\<close>

lemma usage_not_printed:
  assumes "\<not> length argv < 3"
  shows "set (printed (main fs localeCompare argv)) \<inter> set usage = {}"
proof -
  let ?st = "readLines newReport (fs (argv ! 2))"
  have c: "hd m = CHR ''i''" if "m \<in> set (console ?st)" for m
    using console_readLines [OF that] by auto
  have "hd m = CHR ''i'' \<or> hd m = CHR ''T''" if "m \<in> set (printed (main fs localeCompare argv))" for m
    using that assms c
    by (auto simp: main_def Let_def split: sum.splits)
  moreover have "hd u \<noteq> CHR ''i'' \<and> hd u \<noteq> CHR ''T''" if "u \<in> set usage" for u
    using that by (auto simp: usage_def)
  ultimately show ?thesis by blast
qed

text \<open>
  C8. With fewer than three entries in \<open>process.argv\<close> (no positional argument) the
  program prints the two usage lines and exits with status 1, and no file is opened.
  With three entries or more it does not exit that way and prints neither usage line:
  it opens the file named by the first positional argument, whatever follows it.
\<close>

theorem main_usage:
  "(length argv < 3 \<longrightarrow>
      main fs localeCompare argv = \<lparr>printed = usage, opened = [], ending = Exit 1\<rparr>)
   \<and> (\<not> length argv < 3 \<longrightarrow>
        opened (main fs localeCompare argv) = [argv ! 2]
        \<and> ending (main fs localeCompare argv) \<noteq> Exit 1
        \<and> set (printed (main fs localeCompare argv)) \<inter> set usage = {})"
  using usage_not_printed [of argv fs localeCompare]
  by (simp add: main_def Let_def split: sum.splits)

theorem main_usage_witness:
  "length [''node'', ''index.ts''] < 3
   \<and> main (\<lambda>path. dataFile) (\<lambda>a b. 0) [''node'', ''index.ts'']
       = \<lparr>printed = usage, opened = [], ending = Exit 1\<rparr>
   \<and> \<not> length [''node'', ''index.ts'', ''a.csv''] < 3
   \<and> opened (main (\<lambda>path. dataFile) (\<lambda>a b. 0) [''node'', ''index.ts'', ''a.csv''])
       = [''a.csv'']
   \<and> ending (main (\<lambda>path. dataFile) (\<lambda>a b. 0) [''node'', ''index.ts'', ''a.csv''])
       \<noteq> Exit 1"
  using main_usage [of "[''node'', ''index.ts'']" "\<lambda>path. dataFile" "\<lambda>a b. 0"]
    main_usage [of "[''node'', ''index.ts'', ''a.csv'']" "\<lambda>path. dataFile" "\<lambda>a b. 0"]
  by simp

theorem extra_arguments_counterexample:
  "main (\<lambda>path. dataFile) (\<lambda>a b. 0) [''node'', ''index.ts'', ''a.csv'', ''b.csv'']
     = \<lparr>printed =
          [''The country with the highest average Urban population growth (annual %) between 1980 and 1990 : A'',
           ''The year with the highest averaged CO2 emissions (kt) : 1980''],
        opened = [''a.csv''], ending = Finished\<rparr>"
  by code_simp

section \<open>The year with the highest average\<close>










































end
